theory Spec2Isabelle
  imports Main "HOL-Library.Sublist" "HOL-Library.AList" "HOL-Library.Multiset"
begin

section \<open>JavaScript values used by the handlers\<close>

text \<open>
  Strings are \<^typ>\<open>string\<close>. A byte buffer is a \<^typ>\<open>string\<close> as well (a HOL character is one
  byte), and text is represented by the bytes the response writer puts on the wire for it.
  \<open>toLowerCase\<close> folds the ASCII letters; no other character lowers to one of
  \<open>.\<close>, \<open>s\<close>, \<open>v\<close>, \<open>g\<close>, so the suffix test of \<open>fileFilter\<close> is not affected.
\<close>

definition toLowerCase :: "string \<Rightarrow> string" where
  "toLowerCase s =
     map (\<lambda>c. case map_of (zip ''ABCDEFGHIJKLMNOPQRSTUVWXYZ'' ''abcdefghijklmnopqrstuvwxyz'') c of
                 None \<Rightarrow> c
               | Some l \<Rightarrow> l) s"

definition endsWith :: "string \<Rightarrow> string \<Rightarrow> bool" where
  "endsWith s p = suffix p s"

fun includes_str :: "string \<Rightarrow> string \<Rightarrow> bool" where
  "includes_str [] p = (p = [])"
| "includes_str (c # cs) p = (prefix p (c # cs) \<or> includes_str cs p)"

text \<open>\<open>a || b\<close> on a nullable string: \<open>null\<close> and the empty string are falsy.\<close>

definition js_or :: "string option \<Rightarrow> string \<Rightarrow> string" where
  "js_or a b = (case a of None \<Rightarrow> b | Some s \<Rightarrow> if s = [] then b else s)"

datatype json =
    JNull
  | JBool bool
  | JNum nat
  | JStr string
  | JArr "json list"
  | JObj "(string \<times> json) list"

text \<open>
  A response: the status, the headers the handler sets itself with \<open>res.setHeader\<close>, and the
  body given to \<open>res.json\<close> or \<open>res.send\<close>. What the framework adds when it serialises
  the response is outside the model.
\<close>

datatype body = Json json | Send string

record response =
  status :: nat
  headers :: "(string \<times> string) list"
  body :: body

definition res_json :: "nat \<Rightarrow> json \<Rightarrow> response" where
  "res_json st j = \<lparr>status = st, headers = [], body = Json j\<rparr>"

text \<open>\<open>req.protocol\<close> and \<open>req.get('host')\<close>.\<close>

record req_ctx =
  protocol :: string
  host :: string

definition imageUrl :: "req_ctx \<Rightarrow> string \<Rightarrow> string" where
  "imageUrl req filename = protocol req @ ''://'' @ host req @ ''/images/'' @ filename"

section \<open>The \<open>images\<close> table\<close>

text \<open>
  The filesystem variant creates the table with the columns of \<open>meta_row\<close>; the inline variant
  adds \<open>content\<close> and \<open>mime_type\<close>, which its migration leaves \<open>NULL\<close> in older rows.
  Timestamps are natural numbers. \<open>nextval\<close> is the sequence behind \<open>id SERIAL\<close>.
\<close>

record meta_row =
  id_col :: nat
  filename :: string
  original_name :: "string option"
  size_col :: "nat option"
  uploaded_at :: nat

record image_row = meta_row +
  content :: "string option"
  mime_type :: "string option"

record 'r table =
  rows :: "'r list"
  nextval :: nat

definition empty_table :: "'r table" where
  "empty_table = \<lparr>rows = [], nextval = 1\<rparr>"

text \<open>\<open>SELECT ... FROM images WHERE filename = $1\<close>\<close>

definition select_by_filename :: "string \<Rightarrow> ('a meta_row_scheme) table \<Rightarrow> ('a meta_row_scheme) list" where
  "select_by_filename p1 t = filter (\<lambda>r. filename r = p1) (rows t)"

text \<open>\<open>DELETE FROM images WHERE filename = $1\<close>: the new table and \<open>rowCount\<close>.\<close>

definition delete_by_filename :: "string \<Rightarrow> ('a meta_row_scheme) table \<Rightarrow> ('a meta_row_scheme) table \<times> nat" where
  "delete_by_filename p1 t =
     (t\<lparr>rows := filter (\<lambda>r. filename r \<noteq> p1) (rows t)\<rparr>,
      length (filter (\<lambda>r. filename r = p1) (rows t)))"


text \<open>
  The inline variant's statement, with parameters \<open>$1 .. $5\<close> and \<open>NOW()\<close>:
  \<^verbatim>\<open>INSERT INTO images (filename, original_name, size, content, mime_type)
  VALUES ($1, $2, $3, $4, $5)
  ON CONFLICT (filename) DO UPDATE SET original_name = EXCLUDED.original_name,
    size = EXCLUDED.size, content = EXCLUDED.content, uploaded_at = NOW()\<close>
  The sequence advances for the proposed row also when the conflict branch is taken.
\<close>

definition upsert_inline ::
  "nat \<Rightarrow> string \<Rightarrow> string \<Rightarrow> nat \<Rightarrow> string \<Rightarrow> string \<Rightarrow> image_row table \<Rightarrow> image_row table" where
  "upsert_inline now p1 p2 p3 p4 p5 t =
     (if p1 \<in> set (map filename (rows t))
      then \<lparr>rows = map (\<lambda>r. if filename r = p1
                             then r\<lparr>original_name := Some p2, size_col := Some p3,
                                    uploaded_at := now, content := Some p4\<rparr>
                             else r) (rows t),
            nextval = Suc (nextval t)\<rparr>
      else \<lparr>rows = rows t @ [\<lparr>id_col = nextval t, filename = p1, original_name = Some p2,
                               size_col = Some p3, uploaded_at = now,
                               content = Some p4, mime_type = Some p5\<rparr>],
            nextval = Suc (nextval t)\<rparr>)"

section \<open>The upload middleware\<close>

text \<open>
  The file part of the multipart request, and \<open>req.file\<close> as the upload middleware leaves it:
  with memory storage it has the \<open>buffer\<close>, with disk storage the \<open>filename\<close> it was stored
  under (\<open>stored_filename\<close>).
\<close>

record file_head =
  originalname :: string
  mimetype :: string

record part = file_head +
  stream :: string

record sized_file = file_head +
  size_bytes :: nat

record memory_file = sized_file +
  buffer :: string

record disk_file = sized_file +
  stored_filename :: string

datatype mw_error = MulterError string string | PlainError string

definition fileFilter :: "('a file_head_scheme) \<Rightarrow> mw_error + bool" where
  "fileFilter file =
     (if mimetype file = ''image/svg+xml'' \<or> endsWith (toLowerCase (originalname file)) ''.svg''
      then Inr True
      else Inl (PlainError ''Only SVG files are allowed!''))"

definition fileSize :: nat where
  "fileSize = 5 * 1024 * 1024"

text \<open>
  \<open>upload.single('image')\<close> with memory storage. The library runs the filter on the part's
  header first and hands an error of the filter to the error middleware; a part longer than
  \<open>limits.fileSize\<close> gives its \<open>LIMIT_FILE_SIZE\<close> error; a request without the part leaves
  \<open>req.file\<close> undefined.
\<close>

definition upload_single_memory :: "part option \<Rightarrow> mw_error + memory_file option" where
  "upload_single_memory p =
     (case p of
        None \<Rightarrow> Inr None
      | Some f \<Rightarrow>
          (case fileFilter f of
             Inl e \<Rightarrow> Inl e
           | Inr False \<Rightarrow> Inr None
           | Inr True \<Rightarrow>
               if fileSize < length (stream f)
               then Inl (MulterError ''LIMIT_FILE_SIZE'' ''File too large'')
               else Inr (Some \<lparr>originalname = originalname f, mimetype = mimetype f,
                               size_bytes = length (stream f), buffer = stream f\<rparr>)))"

definition error_middleware :: "mw_error \<Rightarrow> response" where
  "error_middleware error =
     (case error of
        MulterError code msg \<Rightarrow>
          if code = ''LIMIT_FILE_SIZE''
          then res_json 400 (JObj [(''success'', JBool False),
                                   (''message'', JStr ''File too large. Maximum size is 5MB.'')])
          else res_json 500 (JObj [(''success'', JBool False),
                                   (''message'', JStr (js_or (Some msg) ''Something went wrong!''))])
      | PlainError msg \<Rightarrow>
          res_json 500 (JObj [(''success'', JBool False),
                              (''message'', JStr (js_or (Some msg) ''Something went wrong!''))]))"

section \<open>Inline variant: the handlers\<close>

text \<open>
  Every handler takes \<open>dbErr\<close>: \<open>Some msg\<close> when its \<open>pool.query\<close> call throws an error with
  that message, \<open>None\<close> when the statement runs. \<open>toString\<close> is \<open>buffer.toString('utf8')\<close>.
  Nothing else inside a handler's outer \<open>try\<close> throws, so its \<open>catch\<close> is a branch only where
  the query is not caught further in. A timestamp in a JSON body is written as its number.
\<close>

definition upload_handler ::
  "(string \<Rightarrow> string) \<Rightarrow> req_ctx \<Rightarrow> nat \<Rightarrow> string option \<Rightarrow> memory_file option
     \<Rightarrow> image_row table \<Rightarrow> response \<times> image_row table" where
  "upload_handler toString req now dbErr file t =
     (case file of
        None \<Rightarrow>
          (res_json 400 (JObj [(''success'', JBool False),
                               (''message'', JStr ''No file uploaded or invalid file type'')]), t)
      | Some f \<Rightarrow>
          (let svgContent = toString (buffer f);
               fname = originalname f
           in if \<not> includes_str svgContent ''<svg'' \<or> \<not> includes_str svgContent ''</svg>''
              then (res_json 400 (JObj [(''success'', JBool False),
                                        (''message'', JStr ''Invalid SVG file format'')]), t)
              else (case dbErr of
                      Some msg \<Rightarrow>
                        (res_json 500 (JObj [(''success'', JBool False),
                                             (''message'', JStr ''Database error while saving image'')]), t)
                    | None \<Rightarrow>
                        (res_json 200 (JObj [(''success'', JBool True),
                                             (''message'', JStr ''SVG image uploaded successfully''),
                                             (''data'', JObj [(''filename'', JStr fname),
                                                              (''originalName'', JStr (originalname f)),
                                                              (''size'', JNum (size_bytes f)),
                                                              (''url'', JStr (imageUrl req fname)),
                                                              (''directUrl'', JStr (imageUrl req fname))])]),
                         upsert_inline now fname (originalname f) (size_bytes f) svgContent
                           ''image/svg+xml'' t))))"

text \<open>\<open>POST /upload\<close>: the upload middleware, then the handler or the error middleware.\<close>

definition post_upload ::
  "(string \<Rightarrow> string) \<Rightarrow> req_ctx \<Rightarrow> nat \<Rightarrow> string option \<Rightarrow> part option
     \<Rightarrow> image_row table \<Rightarrow> response \<times> image_row table" where
  "post_upload toString req now dbErr p t =
     (case upload_single_memory p of
        Inl error \<Rightarrow> (error_middleware error, t)
      | Inr file \<Rightarrow> upload_handler toString req now dbErr file t)"




definition delete_image :: "string \<Rightarrow> string option \<Rightarrow> image_row table \<Rightarrow> response \<times> image_row table" where
  "delete_image fname dbErr t =
     (case dbErr of
        Some msg \<Rightarrow>
          (res_json 500 (JObj [(''success'', JBool False),
                               (''message'', JStr ''Error deleting image''),
                               (''error'', JStr msg)]), t)
      | None \<Rightarrow>
          (let (t', rowCount) = delete_by_filename fname t
           in if rowCount = 0
              then (res_json 404 (JObj [(''success'', JBool False),
                                        (''message'', JStr ''Image not found'')]), t')
              else (res_json 200 (JObj [(''success'', JBool True),
                                        (''message'', JStr ''Image deleted successfully'')]), t')))"

definition get_image :: "string \<Rightarrow> string option \<Rightarrow> image_row table \<Rightarrow> response" where
  "get_image fname dbErr t =
     (case dbErr of
        Some msg \<Rightarrow>
          res_json 500 (JObj [(''success'', JBool False),
                              (''message'', JStr ''Error serving image''),
                              (''error'', JStr msg)])
      | None \<Rightarrow>
          (case select_by_filename fname t of
             [] \<Rightarrow> res_json 404 (JObj [(''success'', JBool False), (''message'', JStr ''Image not found'')])
           | img # _ \<Rightarrow>
               (case content img of
                  None \<Rightarrow>
                    res_json 404
                      (JObj [(''success'', JBool False),
                             (''message'', JStr ''Image content not available. Please re-upload the image.'')])
                | Some c \<Rightarrow>
                    if c = []
                    then res_json 404
                           (JObj [(''success'', JBool False),
                                  (''message'', JStr ''Image content not available. Please re-upload the image.'')])
                    else \<lparr>status = 200,
                          headers = [(''Content-Type'', js_or (mime_type img) ''image/svg+xml''),
                                     (''Cache-Control'', ''public, max-age=31536000'')],
                          body = Send c\<rparr>)))"

text \<open>
  A request that can change the table, with what the environment contributes to it: the
  request's protocol and host, the database clock, and the outcome of the statement.
\<close>

datatype request = POST_upload "part option" | DELETE_images string

datatype call = Call request req_ctx nat "string option"

fun step :: "(string \<Rightarrow> string) \<Rightarrow> call \<Rightarrow> image_row table \<Rightarrow> response \<times> image_row table" where
  "step toString (Call (POST_upload p) req now dbErr) t = post_upload toString req now dbErr p t"
| "step toString (Call (DELETE_images fname) req now dbErr) t = delete_image fname dbErr t"

fun run :: "(string \<Rightarrow> string) \<Rightarrow> call list \<Rightarrow> image_row table \<Rightarrow> image_row table" where
  "run toString [] t = t"
| "run toString (c # cs) t = run toString cs (snd (step toString c t))"

section \<open>Filesystem variant\<close>

text \<open>
  The uploads directory: each name with the file's bytes and its creation time.
  \<open>stats.size\<close> is the length of the bytes. Writing over an existing file keeps its
  creation time. The server runs in its own directory, so that the \<open>uploads/\<close> of the disk
  storage and \<open>uploadsDir\<close> are the same directory, which exists from start-up on.
\<close>

record stored_file =
  bytes :: string
  birthtime :: nat

type_synonym directory = "(string \<times> stored_file) list"

text \<open>
  The directory is flat, and its model is for names that are plain file names. A name that is
  empty, \<open>.\<close> or \<open>..\<close>, or that has a \<open>/\<close> or a NUL in it, makes \<open>path.join\<close> point at a
  directory or outside the uploads directory; what the handlers do then depends on the rest of
  the file system, and the facts below about the filesystem variant are stated for plain names.
\<close>

definition plain_name :: "string \<Rightarrow> bool" where
  "plain_name n =
     (n \<noteq> [] \<and> n \<noteq> ''.'' \<and> n \<noteq> ''..'' \<and> CHR ''/'' \<notin> set n \<and> CHR 0x00 \<notin> set n)"

record world =
  db :: "meta_row table"
  uploadsDir :: directory

definition empty_world :: world where
  "empty_world = \<lparr>db = empty_table, uploadsDir = []\<rparr>"

definition existsSync :: "directory \<Rightarrow> string \<Rightarrow> bool" where
  "existsSync dir name = (map_of dir name \<noteq> None)"

definition write_file :: "nat \<Rightarrow> string \<Rightarrow> string \<Rightarrow> directory \<Rightarrow> directory" where
  "write_file now name bs dir =
     AList.update name
       \<lparr>bytes = bs, birthtime = (case map_of dir name of None \<Rightarrow> now | Some old \<Rightarrow> birthtime old)\<rparr>
       dir"

definition unlinkSync :: "string \<Rightarrow> directory \<Rightarrow> directory" where
  "unlinkSync name dir = AList.delete name dir"

text \<open>
  \<^verbatim>\<open>INSERT INTO images (filename, original_name, size) VALUES ($1,$2,$3)
  ON CONFLICT (filename) DO UPDATE SET original_name = EXCLUDED.original_name,
    size = EXCLUDED.size\<close>
  A new row takes \<open>uploaded_at\<close> from the column default \<open>NOW()\<close>.
\<close>

definition upsert_fs :: "nat \<Rightarrow> string \<Rightarrow> string \<Rightarrow> nat \<Rightarrow> meta_row table \<Rightarrow> meta_row table" where
  "upsert_fs now p1 p2 p3 t =
     (if p1 \<in> set (map filename (rows t))
      then \<lparr>rows = map (\<lambda>r. if filename r = p1
                             then r\<lparr>original_name := Some p2, size_col := Some p3\<rparr>
                             else r) (rows t),
            nextval = Suc (nextval t)\<rparr>
      else \<lparr>rows = rows t @ [\<lparr>id_col = nextval t, filename = p1, original_name = Some p2,
                               size_col = Some p3, uploaded_at = now\<rparr>],
            nextval = Suc (nextval t)\<rparr>)"

text \<open>
  \<open>upload.single('image')\<close> with disk storage: the part is written to the uploads directory
  under its original name as it streams in; when the size limit stops it, the library removes
  the file it was writing before it reports the error.
\<close>

definition upload_single_disk ::
  "nat \<Rightarrow> part option \<Rightarrow> directory \<Rightarrow> (mw_error + disk_file option) \<times> directory" where
  "upload_single_disk now p dir =
     (case p of
        None \<Rightarrow> (Inr None, dir)
      | Some f \<Rightarrow>
          (case fileFilter f of
             Inl e \<Rightarrow> (Inl e, dir)
           | Inr False \<Rightarrow> (Inr None, dir)
           | Inr True \<Rightarrow>
               if fileSize < length (stream f)
               then (Inl (MulterError ''LIMIT_FILE_SIZE'' ''File too large''),
                     unlinkSync (originalname f) dir)
               else (Inr (Some \<lparr>originalname = originalname f, mimetype = mimetype f,
                                size_bytes = length (stream f),
                                stored_filename = originalname f\<rparr>),
                     write_file now (originalname f) (stream f) dir)))"

definition upload_handler_fs ::
  "req_ctx \<Rightarrow> nat \<Rightarrow> string option \<Rightarrow> disk_file option \<Rightarrow> meta_row table
     \<Rightarrow> response \<times> meta_row table" where
  "upload_handler_fs req now dbErr file t =
     (case file of
        None \<Rightarrow>
          (res_json 400 (JObj [(''success'', JBool False),
                               (''message'', JStr ''No file uploaded or invalid file type'')]), t)
      | Some f \<Rightarrow>
          (res_json 200 (JObj [(''success'', JBool True),
                               (''message'', JStr ''SVG image uploaded successfully''),
                               (''data'', JObj [(''filename'', JStr (stored_filename f)),
                                                (''originalName'', JStr (originalname f)),
                                                (''size'', JNum (size_bytes f)),
                                                (''url'', JStr (imageUrl req (stored_filename f))),
                                                (''directUrl'', JStr (imageUrl req (stored_filename f)))])]),
           (case dbErr of
              Some msg \<Rightarrow> t
            | None \<Rightarrow> upsert_fs now (stored_filename f) (originalname f) (size_bytes f) t)))"

definition post_upload_fs ::
  "req_ctx \<Rightarrow> nat \<Rightarrow> string option \<Rightarrow> part option \<Rightarrow> world \<Rightarrow> response \<times> world" where
  "post_upload_fs req now dbErr p w =
     (case upload_single_disk now p (uploadsDir w) of
        (Inl error, dir) \<Rightarrow> (error_middleware error, \<lparr>db = db w, uploadsDir = dir\<rparr>)
      | (Inr file, dir) \<Rightarrow>
          (case upload_handler_fs req now dbErr file (db w) of
             (res, t) \<Rightarrow> (res, \<lparr>db = t, uploadsDir = dir\<rparr>)))"




definition delete_image_fs :: "string \<Rightarrow> string option \<Rightarrow> world \<Rightarrow> response \<times> world" where
  "delete_image_fs fname dbErr w =
     (if \<not> existsSync (uploadsDir w) fname
      then (res_json 404 (JObj [(''success'', JBool False), (''message'', JStr ''Image not found'')]), w)
      else (res_json 200 (JObj [(''success'', JBool True),
                                (''message'', JStr ''Image deleted successfully'')]),
            \<lparr>db = (case dbErr of
                      Some msg \<Rightarrow> db w
                    | None \<Rightarrow> fst (delete_by_filename fname (db w))),
             uploadsDir = unlinkSync fname (uploadsDir w)\<rparr>))"

fun step_fs :: "call \<Rightarrow> world \<Rightarrow> response \<times> world" where
  "step_fs (Call (POST_upload p) req now dbErr) w = post_upload_fs req now dbErr p w"
| "step_fs (Call (DELETE_images fname) req now dbErr) w = delete_image_fs fname dbErr w"

fun run_fs :: "call list \<Rightarrow> world \<Rightarrow> world" where
  "run_fs [] w = w"
| "run_fs (c # cs) w = run_fs cs (snd (step_fs c w))"



section \<open>Invariants of the inline table\<close>

text \<open>Every row carries the MIME type that the upload handler passes as \<open>$5\<close>.\<close>

definition mime_inv :: "image_row table \<Rightarrow> bool" where
  "mime_inv t = list_all (\<lambda>r. mime_type r = Some ''image/svg+xml'') (rows t)"

section \<open>Strings\<close>

lemma includes_str_sublist: "includes_str s p = sublist p s"
  by (induction s) (auto simp: sublist_Cons_right)


section \<open>Inline variant: the upsert and the upload pipeline\<close>

lemma mime_inv_upsert: "mime_inv t \<Longrightarrow> mime_inv (upsert_inline now p1 p2 p3 p4 ''image/svg+xml'' t)"
  by (auto simp: mime_inv_def upsert_inline_def list_all_iff)

lemma mime_inv_delete: "mime_inv t \<Longrightarrow> mime_inv (fst (delete_by_filename p1 t))"
  by (auto simp: mime_inv_def delete_by_filename_def list_all_iff)

lemma upload_handler_cases:
  "upload_handler toString req now dbErr file t = (res, t') \<Longrightarrow>
     t' = t \<or> (\<exists>f. file = Some f \<and> dbErr = None \<and> status res = 200 \<and>
        includes_str (toString (buffer f)) ''<svg'' \<and> includes_str (toString (buffer f)) ''</svg>'' \<and>
        t' = upsert_inline now (originalname f) (originalname f) (size_bytes f) (toString (buffer f)) ''image/svg+xml'' t)"
  by (auto simp: upload_handler_def Let_def res_json_def split: option.splits if_splits)

lemma mime_inv_step: "mime_inv t \<Longrightarrow> mime_inv (snd (step toString c t))"
proof (cases c)
  case (Call r req now dbErr)
  assume inv: "mime_inv t"
  show ?thesis
  proof (cases r)
    case (POST_upload p)
    obtain res t' where e: "post_upload toString req now dbErr p t = (res, t')" by force
    show ?thesis
    proof (cases "upload_single_memory p")
      case (Inl a)
      then show ?thesis using inv Call POST_upload by (simp add: post_upload_def)
    next
      case (Inr fl)
      then have "upload_handler toString req now dbErr fl t = (res, t')"
        using e by (simp add: post_upload_def)
      from upload_handler_cases[OF this] inv have "mime_inv t'"
        by (auto simp: mime_inv_upsert)
      then show ?thesis using Call POST_upload e by simp
    qed
  next
    case (DELETE_images fname)
    then show ?thesis using inv Call mime_inv_delete[OF inv, of fname]
      by (auto simp: delete_image_def Let_def split: option.splits prod.splits if_splits)
  qed
qed

lemma mime_inv_run: "mime_inv t \<Longrightarrow> mime_inv (run toString cs t)"
  by (induction cs arbitrary: t) (auto simp: mime_inv_step)

lemma mime_inv_empty: "mime_inv empty_table"
  by (simp add: mime_inv_def empty_table_def)


lemma upsert_inline_filenames:
  "map filename (rows (upsert_inline now p1 p2 p3 p4 p5 t)) =
     (if p1 \<in> set (map filename (rows t)) then map filename (rows t)
      else map filename (rows t) @ [p1])"
  by (simp add: upsert_inline_def o_def if_distrib[of filename] cong: if_cong)

lemma upsert_inline_present: "p1 \<in> set (map filename (rows (upsert_inline now p1 p2 p3 p4 p5 t)))"
  unfolding upsert_inline_filenames by simp

lemma error_middleware_status: "status (error_middleware e) \<noteq> 200"
  by (simp add: error_middleware_def res_json_def split: mw_error.splits)

lemma upload_single_memory_Inr:
  "upload_single_memory p = Inr fl \<Longrightarrow>
     fl = None \<or> (\<exists>f. p = Some f \<and> fileFilter f = Inr True \<and> length (stream f) \<le> fileSize \<and>
        fl = Some \<lparr>originalname = originalname f, mimetype = mimetype f,
                   size_bytes = length (stream f), buffer = stream f\<rparr>)"
  by (auto simp: upload_single_memory_def split: option.splits sum.splits bool.splits if_splits)

lemma upload_handler_ok:
  "upload_handler toString req now dbErr fl t = (res, t') \<Longrightarrow> status res = 200 \<Longrightarrow>
     \<exists>f. fl = Some f \<and> dbErr = None \<and>
        includes_str (toString (buffer f)) ''<svg'' \<and> includes_str (toString (buffer f)) ''</svg>'' \<and>
        t' = upsert_inline now (originalname f) (originalname f) (size_bytes f) (toString (buffer f)) ''image/svg+xml'' t"
  by (auto simp: upload_handler_def Let_def res_json_def split: option.splits if_splits)

lemma post_upload_ok:
  assumes "post_upload toString req now dbErr p t = (res, t')" and "status res = 200"
  shows "\<exists>f. p = Some f \<and> fileFilter f = Inr True \<and> length (stream f) \<le> fileSize \<and> dbErr = None \<and>
           includes_str (toString (stream f)) ''<svg'' \<and> includes_str (toString (stream f)) ''</svg>'' \<and>
           t' = upsert_inline now (originalname f) (originalname f) (length (stream f))
                  (toString (stream f)) ''image/svg+xml'' t"
proof (cases "upload_single_memory p")
  case (Inl e)
  then have "res = error_middleware e" using assms(1) by (simp add: post_upload_def)
  then show ?thesis using assms(2) error_middleware_status by blast
next
  case (Inr fl)
  then have h: "upload_handler toString req now dbErr fl t = (res, t')"
    using assms(1) by (simp add: post_upload_def)
  from upload_handler_ok[OF h assms(2)] obtain mf where mf: "fl = Some mf" "dbErr = None"
    "includes_str (toString (buffer mf)) ''<svg''" "includes_str (toString (buffer mf)) ''</svg>''"
    "t' = upsert_inline now (originalname mf) (originalname mf) (size_bytes mf) (toString (buffer mf)) ''image/svg+xml'' t"
    by blast
  from upload_single_memory_Inr[OF Inr] mf(1) obtain f where f: "p = Some f" "fileFilter f = Inr True"
    "length (stream f) \<le> fileSize"
    "mf = \<lparr>originalname = originalname f, mimetype = mimetype f,
           size_bytes = length (stream f), buffer = stream f\<rparr>"
    by auto
  show ?thesis using mf f by simp
qed


lemma select_head:
  "select_by_filename p1 t = r # rs \<Longrightarrow> r \<in> set (rows t) \<and> filename r = p1"
proof -
  assume "select_by_filename p1 t = r # rs"
  then have "r \<in> set (filter (\<lambda>r. filename r = p1) (rows t))"
    by (simp add: select_by_filename_def)
  then show ?thesis by simp
qed

lemma get_image_found:
  assumes "select_by_filename fname t = img # rest" and "content img = Some c" and "c \<noteq> []"
  shows "get_image fname None t =
           \<lparr>status = 200,
            headers = [(''Content-Type'', (case mime_type img of None \<Rightarrow> ''image/svg+xml''
                                           | Some m \<Rightarrow> if m = [] then ''image/svg+xml'' else m)),
                       (''Cache-Control'', ''public, max-age=31536000'')],
            body = Send c\<rparr>"
  using assms by (simp add: get_image_def js_or_def split: option.splits)

section \<open>Upload, then fetch\<close>



section \<open>Rows and filenames\<close>

lemma filter_key_unique:
  "distinct (map k xs) \<Longrightarrow> x \<in> set xs \<Longrightarrow> filter (\<lambda>y. k y = k x) xs = [x]"
proof (induction xs)
  case Nil
  then show ?case by simp
next
  case (Cons a xs)
  show ?case
  proof (cases "x = a")
    case True
    have "k a \<notin> k ` set xs" using Cons.prems(1) by simp
    then have "\<forall>y\<in>set xs. k y \<noteq> k a" by (metis imageI)
    then have "filter (\<lambda>y. k y = k a) xs = []" by (simp add: filter_empty_conv)
    then show ?thesis using True by simp
  next
    case False
    then have "x \<in> set xs" using Cons.prems(2) by simp
    moreover have "k a \<noteq> k x" using Cons.prems(1) calculation by auto
    ultimately show ?thesis using Cons by simp
  qed
qed

lemma select_unique:
  "distinct (map filename (rows t)) \<Longrightarrow> r \<in> set (rows t) \<Longrightarrow> select_by_filename (filename r) t = [r]"
  by (simp add: select_by_filename_def filter_key_unique)

lemma select_none:
  "fname \<notin> filename ` set (rows t) \<Longrightarrow> select_by_filename fname t = []"
  by (auto simp: select_by_filename_def filter_empty_conv)

section \<open>Serving an image\<close>

text \<open>
  Claim C5. \<open>GET /images/:filename\<close> of the inline variant, when its query runs: without a row for
  the filename the answer is 404; with the row, a \<open>NULL\<close> or empty \<open>content\<close> gives 404, and
  otherwise the answer is 200 with \<open>Content-Type\<close> the row's \<open>mime_type\<close> (or
  \<open>image/svg+xml\<close> when that is \<open>NULL\<close> or empty), \<open>Cache-Control: public, max-age=31536000\<close>
  and the stored text as body. Filenames are unique in the table.
\<close>

theorem serve_image_contract:
  assumes "distinct (map filename (rows t))"
  shows "(fname \<notin> filename ` set (rows t) \<longrightarrow> status (get_image fname None t) = 404) \<and>
         (\<forall>r \<in> set (rows t). filename r = fname \<longrightarrow>
            (case content r of
               None \<Rightarrow> status (get_image fname None t) = 404
             | Some c \<Rightarrow>
                 if c = [] then status (get_image fname None t) = 404
                 else get_image fname None t =
                        \<lparr>status = 200,
                         headers = [(''Content-Type'',
                                     (case mime_type r of
                                        None \<Rightarrow> ''image/svg+xml''
                                      | Some m \<Rightarrow> if m = [] then ''image/svg+xml'' else m)),
                                    (''Cache-Control'', ''public, max-age=31536000'')],
                         body = Send c\<rparr>))"
proof (intro conjI impI ballI)
  assume "fname \<notin> filename ` set (rows t)"
  then show "status (get_image fname None t) = 404"
    by (simp add: get_image_def select_none res_json_def)
next
  fix r assume r: "r \<in> set (rows t)" and n: "filename r = fname"
  have sel: "select_by_filename fname t = [r]"
    using select_unique[OF assms r] n by simp
  show "case content r of
               None \<Rightarrow> status (get_image fname None t) = 404
             | Some c \<Rightarrow>
                 if c = [] then status (get_image fname None t) = 404
                 else get_image fname None t =
                        \<lparr>status = 200,
                         headers = [(''Content-Type'',
                                     (case mime_type r of
                                        None \<Rightarrow> ''image/svg+xml''
                                      | Some m \<Rightarrow> if m = [] then ''image/svg+xml'' else m)),
                                    (''Cache-Control'', ''public, max-age=31536000'')],
                         body = Send c\<rparr>"
  proof (cases "content r")
    case None
    then show ?thesis by (simp add: get_image_def sel js_or_def res_json_def)
  next
    case (Some c)
    show ?thesis
    proof (cases "c = []")
      case True
      then show ?thesis using Some by (simp add: get_image_def sel js_or_def res_json_def)
    next
      case False
      then show ?thesis using Some get_image_found[OF sel Some False] by simp
    qed
  qed
qed

theorem serve_image_contract_witness:
  "distinct (map filename (rows \<lparr>rows = [\<lparr>id_col = 1, filename = ''a.svg'', original_name = Some ''a.svg'',
       size_col = Some 11, uploaded_at = 5, content = Some ''<svg></svg>'', mime_type = None\<rparr>],
       nextval = 2\<rparr>)) \<and>
   status (get_image ''b.svg'' None \<lparr>rows = [\<lparr>id_col = 1, filename = ''a.svg'', original_name = Some ''a.svg'',
       size_col = Some 11, uploaded_at = 5, content = Some ''<svg></svg>'', mime_type = None\<rparr>],
       nextval = 2\<rparr>) = 404 \<and>
   get_image ''a.svg'' None \<lparr>rows = [\<lparr>id_col = 1, filename = ''a.svg'', original_name = Some ''a.svg'',
       size_col = Some 11, uploaded_at = 5, content = Some ''<svg></svg>'', mime_type = None\<rparr>],
       nextval = 2\<rparr> =
     \<lparr>status = 200,
      headers = [(''Content-Type'', ''image/svg+xml''), (''Cache-Control'', ''public, max-age=31536000'')],
      body = Send ''<svg></svg>''\<rparr>"
proof -
  let ?t = "\<lparr>rows = [\<lparr>id_col = 1, filename = ''a.svg'', original_name = Some ''a.svg'',
       size_col = Some 11, uploaded_at = 5, content = Some ''<svg></svg>'', mime_type = None\<rparr>],
       nextval = 2\<rparr>"
  have d: "distinct (map filename (rows ?t))" by simp
  show ?thesis
    using d serve_image_contract[OF d, of "''b.svg''"] serve_image_contract[OF d, of "''a.svg''"]
    by simp
qed

section \<open>The content check of the upload handler\<close>

text \<open>
  Claim C7. When the decoded text of the file that reaches the inline upload handler does not
  contain both \<open><svg\<close> and \<open></svg>\<close>, the handler answers 400 with the message
  \<open>Invalid SVG file format\<close> and the table is left as it was, whatever the database would do.
\<close>

theorem invalid_svg_rejected:
  assumes "\<not> (sublist ''<svg'' (toString (buffer f)) \<and> sublist ''</svg>'' (toString (buffer f)))"
  shows "upload_handler toString req now dbErr (Some f) t =
           (\<lparr>status = 400, headers = [],
             body = Json (JObj [(''success'', JBool False),
                                (''message'', JStr ''Invalid SVG file format'')])\<rparr>, t)"
  using assms by (simp add: upload_handler_def Let_def res_json_def includes_str_sublist)

theorem invalid_svg_rejected_witness:
  "\<not> (sublist ''<svg'' ((\<lambda>b. b) (buffer \<lparr>originalname = ''a.svg'', mimetype = ''image/svg+xml'',
          size_bytes = 5, buffer = ''hello''\<rparr>)) \<and>
       sublist ''</svg>'' ((\<lambda>b. b) (buffer \<lparr>originalname = ''a.svg'', mimetype = ''image/svg+xml'',
          size_bytes = 5, buffer = ''hello''\<rparr>))) \<and>
   upload_handler (\<lambda>b. b) \<lparr>protocol = ''http'', host = ''h''\<rparr> 7 None
     (Some \<lparr>originalname = ''a.svg'', mimetype = ''image/svg+xml'', size_bytes = 5, buffer = ''hello''\<rparr>)
     empty_table =
     (\<lparr>status = 400, headers = [],
       body = Json (JObj [(''success'', JBool False), (''message'', JStr ''Invalid SVG file format'')])\<rparr>,
      empty_table)"
proof -
  let ?f = "\<lparr>originalname = ''a.svg'', mimetype = ''image/svg+xml'', size_bytes = 5, buffer = ''hello''\<rparr>"
  show ?thesis
    using invalid_svg_rejected[of "\<lambda>b. b" ?f "\<lparr>protocol = ''http'', host = ''h''\<rparr>" 7 None empty_table]
    by (simp flip: includes_str_sublist)
qed

section \<open>What a request does to the inline table\<close>

lemma delete_image_snd:
  "snd (delete_image fname dbErr t) = t \<or> snd (delete_image fname dbErr t) = fst (delete_by_filename fname t)"
  by (simp add: delete_image_def Let_def split: option.splits prod.splits)

lemma post_upload_snd_name:
  "snd (post_upload toString req now dbErr p t) = t \<or>
   (\<exists>f p3 p4. p = Some f \<and>
      snd (post_upload toString req now dbErr p t) =
        upsert_inline now (originalname f) (originalname f) p3 p4 ''image/svg+xml'' t)"
proof (cases "upload_single_memory p")
  case (Inl e)
  then show ?thesis by (simp add: post_upload_def)
next
  case (Inr fl)
  obtain res t' where h: "upload_handler toString req now dbErr fl t = (res, t')" by force
  then have s: "snd (post_upload toString req now dbErr p t) = t'" using Inr by (simp add: post_upload_def)
  from upload_handler_cases[OF h] show ?thesis
  proof
    assume "t' = t"
    then show ?thesis using s by simp
  next
    assume "\<exists>f. fl = Some f \<and> dbErr = None \<and> status res = 200 \<and>
        includes_str (toString (buffer f)) ''<svg'' \<and> includes_str (toString (buffer f)) ''</svg>'' \<and>
        t' = upsert_inline now (originalname f) (originalname f) (size_bytes f) (toString (buffer f)) ''image/svg+xml'' t"
    then obtain mf where mf: "fl = Some mf"
      "t' = upsert_inline now (originalname mf) (originalname mf) (size_bytes mf) (toString (buffer mf)) ''image/svg+xml'' t"
      by blast
    from upload_single_memory_Inr[OF Inr] mf(1) obtain f where "p = Some f" "originalname mf = originalname f"
      by auto
    then show ?thesis using s mf(2) by auto
  qed
qed

lemma step_snd:
  "snd (step toString c t) = t \<or>
   (\<exists>now p1 p2 p3 p4. snd (step toString c t) = upsert_inline now p1 p2 p3 p4 ''image/svg+xml'' t) \<or>
   (\<exists>p1. snd (step toString c t) = fst (delete_by_filename p1 t))"
proof (cases c)
  case (Call r req now dbErr)
  show ?thesis
  proof (cases r)
    case (POST_upload p)
    then show ?thesis using Call post_upload_snd_name[of toString req now dbErr p t] by simp blast
  next
    case (DELETE_images fname)
    then show ?thesis using Call delete_image_snd[of fname dbErr t] by simp blast
  qed
qed

lemma distinct_upsert_inline:
  "distinct (map filename (rows t)) \<Longrightarrow> distinct (map filename (rows (upsert_inline now p1 p2 p3 p4 p5 t)))"
  by (simp add: upsert_inline_filenames)

lemma distinct_delete_by_filename:
  "distinct (map filename (rows t)) \<Longrightarrow> distinct (map filename (rows (fst (delete_by_filename p1 t))))"
  by (simp add: delete_by_filename_def distinct_map_filter)

lemma distinct_step:
  "distinct (map filename (rows t)) \<Longrightarrow> distinct (map filename (rows (snd (step toString c t))))"
  using step_snd[of toString c t] distinct_upsert_inline distinct_delete_by_filename by metis

lemma distinct_run:
  "distinct (map filename (rows t)) \<Longrightarrow> distinct (map filename (rows (run toString cs t)))"
  by (induction cs arbitrary: t) (simp_all add: distinct_step)

lemma distinct_reachable: "distinct (map filename (rows (run toString cs empty_table)))"
  by (rule distinct_run) (simp add: empty_table_def)

lemma get_image_ok_header:
  assumes "status (get_image fname None t) = 200"
  shows "\<exists>img \<in> set (rows t). map_of (headers (get_image fname None t)) ''Content-Type'' =
            Some (js_or (mime_type img) ''image/svg+xml'')"
proof (cases "select_by_filename fname t")
  case Nil
  then show ?thesis using assms by (simp add: get_image_def res_json_def)
next
  case (Cons img rest)
  from select_head[OF Cons] have "img \<in> set (rows t)" by simp
  moreover have "map_of (headers (get_image fname None t)) ''Content-Type'' =
            Some (js_or (mime_type img) ''image/svg+xml'')"
    using assms Cons by (simp add: get_image_def res_json_def split: option.splits if_splits)
  ultimately show ?thesis by blast
qed

section \<open>The stored MIME type\<close>

text \<open>
  Claim C10. After any sequence of upload and delete requests on the empty table, with any
  client-supplied MIME types and any database failures, every row has \<open>mime_type\<close>
  \<open>image/svg+xml\<close>; a \<open>GET /images/:filename\<close> that answers 200 there carries that
  \<open>Content-Type\<close>; and a successful upload leaves exactly one row for its filename, with that
  MIME type.
\<close>

theorem uploaded_rows_mime_type:
  "(\<forall>r \<in> set (rows (run toString cs empty_table)). mime_type r = Some ''image/svg+xml'') \<and>
   (status (get_image fname None (run toString cs empty_table)) = 200 \<longrightarrow>
      map_of (headers (get_image fname None (run toString cs empty_table))) ''Content-Type'' =
        Some ''image/svg+xml'') \<and>
   (\<forall>res t'. post_upload toString req now dbErr (Some f) (run toString cs empty_table) = (res, t')
        \<and> status res = 200 \<longrightarrow>
        (\<exists>r. select_by_filename (originalname f) t' = [r] \<and> mime_type r = Some ''image/svg+xml''))"
proof (intro conjI allI impI)
  let ?t = "run toString cs empty_table"
  have inv: "mime_inv ?t" by (simp add: mime_inv_run mime_inv_empty)
  then show all: "\<forall>r \<in> set (rows ?t). mime_type r = Some ''image/svg+xml''"
    by (simp add: mime_inv_def list_all_iff)
  {
    assume "status (get_image fname None ?t) = 200"
    from get_image_ok_header[OF this] all
    show "map_of (headers (get_image fname None ?t)) ''Content-Type'' = Some ''image/svg+xml''"
      by (auto simp: js_or_def)
  }
  {
    fix res t'
    assume a: "post_upload toString req now dbErr (Some f) ?t = (res, t') \<and> status res = 200"
    then have t': "t' = snd (step toString (Call (POST_upload (Some f)) req now dbErr) ?t)" by simp
    have inv': "mime_inv t'" unfolding t' by (rule mime_inv_step[OF inv])
    have d': "distinct (map filename (rows t'))" unfolding t' by (rule distinct_step[OF distinct_reachable])
    from a post_upload_ok[of toString req now dbErr "Some f" ?t res t']
    obtain c where "t' = upsert_inline now (originalname f) (originalname f) (length (stream f)) c ''image/svg+xml'' ?t"
      by auto
    then have "originalname f \<in> set (map filename (rows t'))" using upsert_inline_present by simp
    then obtain r where r: "r \<in> set (rows t')" "filename r = originalname f" by auto
    have "select_by_filename (originalname f) t' = [r]" using select_unique[OF d' r(1)] r(2) by simp
    moreover have "mime_type r = Some ''image/svg+xml''" using inv' r(1) by (simp add: mime_inv_def list_all_iff)
    ultimately show "\<exists>r. select_by_filename (originalname f) t' = [r] \<and> mime_type r = Some ''image/svg+xml''"
      by blast
  }
qed

theorem uploaded_rows_mime_type_witness:
  "status (get_image ''a.svg'' None
     (run (\<lambda>b. b)
        [Call (POST_upload (Some \<lparr>originalname = ''a.svg'', mimetype = ''text/plain'',
                                   stream = ''<svg></svg>''\<rparr>))
           \<lparr>protocol = ''http'', host = ''h''\<rparr> 1 None] empty_table)) = 200 \<and>
   map_of (headers (get_image ''a.svg'' None
     (run (\<lambda>b. b)
        [Call (POST_upload (Some \<lparr>originalname = ''a.svg'', mimetype = ''text/plain'',
                                   stream = ''<svg></svg>''\<rparr>))
           \<lparr>protocol = ''http'', host = ''h''\<rparr> 1 None] empty_table))) ''Content-Type'' =
     Some ''image/svg+xml''"
proof -
  let ?cs = "[Call (POST_upload (Some \<lparr>originalname = ''a.svg'', mimetype = ''text/plain'',
                                   stream = ''<svg></svg>''\<rparr>))
           \<lparr>protocol = ''http'', host = ''h''\<rparr> 1 None]"
  have ok: "status (get_image ''a.svg'' None (run (\<lambda>b. b) ?cs empty_table)) = 200"
    by (simp add: post_upload_def upload_single_memory_def fileFilter_def fileSize_def
          upload_handler_def res_json_def Let_def endsWith_def toLowerCase_def suffix_to_prefix
          upsert_inline_def empty_table_def get_image_def select_by_filename_def js_or_def)
  show ?thesis
    using ok uploaded_rows_mime_type[of "\<lambda>b. b" ?cs "''a.svg''"] by blast
qed

section \<open>Filesystem variant: what a request does to the table\<close>

lemma upsert_fs_filenames:
  "map filename (rows (upsert_fs now p1 p2 p3 t)) =
     (if p1 \<in> set (map filename (rows t)) then map filename (rows t)
      else map filename (rows t) @ [p1])"
  by (simp add: upsert_fs_def o_def if_distrib[of filename] cong: if_cong)

lemma distinct_upsert_fs:
  "distinct (map filename (rows t)) \<Longrightarrow> distinct (map filename (rows (upsert_fs now p1 p2 p3 t)))"
  by (simp add: upsert_fs_filenames)

lemma upload_handler_fs_snd:
  "snd (upload_handler_fs req now dbErr fl t) = t \<or>
   (\<exists>p1 p2 p3. snd (upload_handler_fs req now dbErr fl t) = upsert_fs now p1 p2 p3 t)"
  by (auto simp: upload_handler_fs_def split: option.splits)

lemma post_upload_fs_db:
  "db (snd (post_upload_fs req now dbErr p w)) = db w \<or>
   (\<exists>p1 p2 p3. db (snd (post_upload_fs req now dbErr p w)) = upsert_fs now p1 p2 p3 (db w))"
proof -
  obtain r dir where u: "upload_single_disk now p (uploadsDir w) = (r, dir)" by force
  show ?thesis
  proof (cases r)
    case (Inl e)
    then show ?thesis using u by (simp add: post_upload_fs_def)
  next
    case (Inr fl)
    obtain res t where h: "upload_handler_fs req now dbErr fl (db w) = (res, t)" by force
    then have "db (snd (post_upload_fs req now dbErr p w)) = snd (upload_handler_fs req now dbErr fl (db w))"
      using u Inr by (simp add: post_upload_fs_def)
    then show ?thesis using upload_handler_fs_snd[of req now dbErr fl "db w"] by metis
  qed
qed

lemma delete_image_fs_db:
  "db (snd (delete_image_fs fname dbErr w)) = db w \<or>
   db (snd (delete_image_fs fname dbErr w)) = fst (delete_by_filename fname (db w))"
  by (simp add: delete_image_fs_def split: option.splits)

lemma distinct_step_fs:
  assumes "distinct (map filename (rows (db w)))"
  shows "distinct (map filename (rows (db (snd (step_fs c w)))))"
proof (cases c)
  case (Call r req now dbErr)
  show ?thesis
  proof (cases r)
    case (POST_upload p)
    then show ?thesis
      using Call assms post_upload_fs_db[of req now dbErr p w] distinct_upsert_fs[OF assms]
      by (metis step_fs.simps(1))
  next
    case (DELETE_images fname)
    then show ?thesis
      using Call assms delete_image_fs_db[of fname dbErr w] distinct_delete_by_filename[OF assms]
      by (metis step_fs.simps(2))
  qed
qed

lemma distinct_run_fs:
  "distinct (map filename (rows (db w))) \<Longrightarrow> distinct (map filename (rows (db (run_fs cs w))))"
  by (induction cs arbitrary: w) (simp_all add: distinct_step_fs)

lemma distinct_reachable_fs: "distinct (map filename (rows (db (run_fs cs empty_world))))"
  by (rule distinct_run_fs) (simp add: empty_world_def empty_table_def)

section \<open>The upsert on an existing and on a new filename\<close>

lemma filter_map_key:
  "(\<And>x. k (g x) = k x) \<Longrightarrow> filter (\<lambda>y. k y = a) (map g xs) = map g (filter (\<lambda>y. k y = a) xs)"
  by (induction xs) auto

lemma upsert_inline_existing:
  assumes d: "distinct (map filename (rows t))" and r: "r \<in> set (rows t)"
  shows "select_by_filename (filename r) (upsert_inline now (filename r) p2 p3 p4 p5 t) =
           [r\<lparr>original_name := Some p2, size_col := Some p3, uploaded_at := now, content := Some p4\<rparr>]"
proof -
  let ?g = "\<lambda>x. if filename x = filename r
                 then x\<lparr>original_name := Some p2, size_col := Some p3, uploaded_at := now, content := Some p4\<rparr>
                 else x"
  have k: "\<And>x. filename (?g x) = filename x" by simp
  have "filename r \<in> set (map filename (rows t))" using r by simp
  then have "rows (upsert_inline now (filename r) p2 p3 p4 p5 t) = map ?g (rows t)"
    by (simp add: upsert_inline_def)
  then have "select_by_filename (filename r) (upsert_inline now (filename r) p2 p3 p4 p5 t) =
               map ?g (filter (\<lambda>y. filename y = filename r) (rows t))"
    unfolding select_by_filename_def using filter_map_key[of filename ?g "filename r" "rows t", OF k]
    by simp
  also have "\<dots> = map ?g [r]" using filter_key_unique[OF d r] by simp
  finally show ?thesis by simp
qed

lemma upsert_fs_existing:
  assumes d: "distinct (map filename (rows t))" and r: "r \<in> set (rows t)"
  shows "select_by_filename (filename r) (upsert_fs now (filename r) p2 p3 t) =
           [r\<lparr>original_name := Some p2, size_col := Some p3\<rparr>]"
proof -
  let ?g = "\<lambda>x. if filename x = filename r
                 then x\<lparr>original_name := Some p2, size_col := Some p3\<rparr>
                 else x"
  have k: "\<And>x. filename (?g x) = filename x" by simp
  have "filename r \<in> set (map filename (rows t))" using r by simp
  then have "rows (upsert_fs now (filename r) p2 p3 t) = map ?g (rows t)"
    by (simp add: upsert_fs_def)
  then have "select_by_filename (filename r) (upsert_fs now (filename r) p2 p3 t) =
               map ?g (filter (\<lambda>y. filename y = filename r) (rows t))"
    unfolding select_by_filename_def using filter_map_key[of filename ?g "filename r" "rows t", OF k]
    by simp
  also have "\<dots> = map ?g [r]" using filter_key_unique[OF d r] by simp
  finally show ?thesis by simp
qed

lemma upsert_inline_fresh:
  assumes "p1 \<notin> filename ` set (rows t)"
  shows "select_by_filename p1 (upsert_inline now p1 p2 p3 p4 p5 t) =
           [\<lparr>id_col = nextval t, filename = p1, original_name = Some p2, size_col = Some p3,
             uploaded_at = now, content = Some p4, mime_type = Some p5\<rparr>]"
  using assms select_none[of p1 t] by (simp add: upsert_inline_def select_by_filename_def)

section \<open>Rejections by the upload middleware\<close>

lemma non_svg_upload:
  assumes "mimetype f \<noteq> ''image/svg+xml''" and "\<not> endsWith (toLowerCase (originalname f)) ''.svg''"
  shows "post_upload toString req now dbErr (Some f) t =
           (\<lparr>status = 500, headers = [],
             body = Json (JObj [(''success'', JBool False),
                                (''message'', JStr ''Only SVG files are allowed!'')])\<rparr>, t)"
    and "post_upload_fs req now dbErr (Some f) w =
           (\<lparr>status = 500, headers = [],
             body = Json (JObj [(''success'', JBool False),
                                (''message'', JStr ''Only SVG files are allowed!'')])\<rparr>, w)"
  using assms
  by (simp_all add: post_upload_def post_upload_fs_def upload_single_memory_def upload_single_disk_def
        fileFilter_def error_middleware_def res_json_def js_or_def)

text \<open>
  Claim C3. A file whose MIME type is not \<open>image/svg+xml\<close> and whose lowercased name does not
  end in \<open>.svg\<close> is to be rejected with status 400 before any storage mutation. Here the
  pipeline is run on \<open>photo.png\<close> of type \<open>image/png\<close>: nothing is stored, in either
  variant, but the filter's error goes to the error middleware, which answers 500.
\<close>

theorem non_svg_upload_answers_500:
  "post_upload (\<lambda>b. b) \<lparr>protocol = ''http'', host = ''h''\<rparr> 1 None
     (Some \<lparr>originalname = ''photo.png'', mimetype = ''image/png'', stream = ''PNG''\<rparr>) empty_table =
     (\<lparr>status = 500, headers = [],
       body = Json (JObj [(''success'', JBool False),
                          (''message'', JStr ''Only SVG files are allowed!'')])\<rparr>, empty_table) \<and>
   post_upload_fs \<lparr>protocol = ''http'', host = ''h''\<rparr> 1 None
     (Some \<lparr>originalname = ''photo.png'', mimetype = ''image/png'', stream = ''PNG''\<rparr>) empty_world =
     (\<lparr>status = 500, headers = [],
       body = Json (JObj [(''success'', JBool False),
                          (''message'', JStr ''Only SVG files are allowed!'')])\<rparr>, empty_world)"
  by (simp add: post_upload_def post_upload_fs_def upload_single_memory_def upload_single_disk_def
        fileFilter_def error_middleware_def res_json_def js_or_def endsWith_def toLowerCase_def
        suffix_to_prefix)

text \<open>
  Claim C8, as stated for every file over 5 MiB, fails for a file that the filter rejects: the
  filter runs on the part's header before any byte is counted, and its answer is the one of
  \<open>non_svg_upload\<close>.
\<close>

theorem oversize_non_svg_counterexample:
  "fileSize < length (stream \<lparr>originalname = ''photo.png'', mimetype = ''image/png'',
                              stream = replicate 5242881 CHR ''x''\<rparr>) \<and>
   fst (post_upload (\<lambda>b. b) \<lparr>protocol = ''http'', host = ''h''\<rparr> 1 None
     (Some \<lparr>originalname = ''photo.png'', mimetype = ''image/png'',
            stream = replicate 5242881 CHR ''x''\<rparr>) empty_table) =
     \<lparr>status = 500, headers = [],
      body = Json (JObj [(''success'', JBool False),
                         (''message'', JStr ''Only SVG files are allowed!'')])\<rparr>"
  by (simp add: post_upload_def upload_single_memory_def
        fileFilter_def error_middleware_def res_json_def js_or_def endsWith_def toLowerCase_def
        suffix_to_prefix fileSize_def)

lemma existsSync_unlinkSync: "\<not> existsSync (unlinkSync name dir) name"
  by (simp add: existsSync_def unlinkSync_def delete_conv')

lemma map_of_write_file:
  "map_of (write_file now name bs dir) name =
     Some \<lparr>bytes = bs, birthtime = (case map_of dir name of None \<Rightarrow> now | Some old \<Rightarrow> birthtime old)\<rparr>"
  by (simp add: write_file_def update_conv')

text \<open>
  Claim C8, amended. A file over 5 MiB that passes the SVG file filter is rejected with status
  400 and the message \<open>File too large. Maximum size is 5MB.\<close>; the inline table is unchanged,
  and in the filesystem variant (the name a plain file name) the table is unchanged and no file
  of that name is left in the uploads directory.
\<close>

theorem oversize_svg_rejected:
  assumes "fileFilter f = Inr True" and "fileSize < length (stream f)"
  shows "post_upload toString req now dbErr (Some f) t =
           (\<lparr>status = 400, headers = [],
             body = Json (JObj [(''success'', JBool False),
                                (''message'', JStr ''File too large. Maximum size is 5MB.'')])\<rparr>, t) \<and>
         (plain_name (originalname f) \<longrightarrow>
            fst (post_upload_fs req now dbErr (Some f) w) =
              \<lparr>status = 400, headers = [],
               body = Json (JObj [(''success'', JBool False),
                                  (''message'', JStr ''File too large. Maximum size is 5MB.'')])\<rparr> \<and>
            db (snd (post_upload_fs req now dbErr (Some f) w)) = db w \<and>
            \<not> existsSync (uploadsDir (snd (post_upload_fs req now dbErr (Some f) w))) (originalname f))"
  using assms
  by (simp add: post_upload_def post_upload_fs_def upload_single_memory_def upload_single_disk_def
        error_middleware_def res_json_def existsSync_unlinkSync)

theorem oversize_svg_rejected_witness:
  "fileFilter \<lparr>originalname = ''big.svg'', mimetype = ''image/svg+xml'',
               stream = replicate 5242881 CHR ''x''\<rparr> = Inr True \<and>
   fileSize < length (stream \<lparr>originalname = ''big.svg'', mimetype = ''image/svg+xml'',
                              stream = replicate 5242881 CHR ''x''\<rparr>) \<and>
   post_upload (\<lambda>b. b) \<lparr>protocol = ''http'', host = ''h''\<rparr> 1 None
     (Some \<lparr>originalname = ''big.svg'', mimetype = ''image/svg+xml'',
            stream = replicate 5242881 CHR ''x''\<rparr>) empty_table =
     (\<lparr>status = 400, headers = [],
       body = Json (JObj [(''success'', JBool False),
                          (''message'', JStr ''File too large. Maximum size is 5MB.'')])\<rparr>, empty_table) \<and>
   plain_name (originalname \<lparr>originalname = ''big.svg'', mimetype = ''image/svg+xml'',
                             stream = replicate 5242881 CHR ''x''\<rparr>) \<and>
   fst (post_upload_fs \<lparr>protocol = ''http'', host = ''h''\<rparr> 1 None
     (Some \<lparr>originalname = ''big.svg'', mimetype = ''image/svg+xml'',
            stream = replicate 5242881 CHR ''x''\<rparr>) empty_world) =
     \<lparr>status = 400, headers = [],
      body = Json (JObj [(''success'', JBool False),
                         (''message'', JStr ''File too large. Maximum size is 5MB.'')])\<rparr>"
proof -
  let ?f = "\<lparr>originalname = ''big.svg'', mimetype = ''image/svg+xml'',
             stream = replicate 5242881 CHR ''x''\<rparr>"
  have a: "fileFilter ?f = Inr True" by (simp add: fileFilter_def)
  have b: "fileSize < length (stream ?f)" by (simp add: fileSize_def)
  have c: "plain_name (originalname ?f)" by (simp add: plain_name_def)
  show ?thesis
    using a b c oversize_svg_rejected[OF a b, of "\<lambda>b. b" "\<lparr>protocol = ''http'', host = ''h''\<rparr>" 1 None
        empty_table empty_world]
    by blast
qed

section \<open>A failing upsert\<close>

text \<open>
  Claim C4. For a file that passes the filter and the size limit, when the upsert throws: the
  inline variant (the content check passed) answers 500 with the message
  \<open>Database error while saving image\<close> and \<open>success: false\<close>, the table unchanged; the filesystem
  variant (the name a plain file name) answers 200 with \<open>success: true\<close>, the table unchanged
  and the file written.
\<close>

theorem upsert_failure_responses:
  assumes "fileFilter f = Inr True" and "length (stream f) \<le> fileSize"
  shows "(sublist ''<svg'' (toString (stream f)) \<and> sublist ''</svg>'' (toString (stream f)) \<longrightarrow>
            post_upload toString req now (Some msg) (Some f) t =
              (\<lparr>status = 500, headers = [],
                body = Json (JObj [(''success'', JBool False),
                                   (''message'', JStr ''Database error while saving image'')])\<rparr>, t)) \<and>
         (plain_name (originalname f) \<longrightarrow>
            fst (post_upload_fs req now (Some msg) (Some f) w) =
              \<lparr>status = 200, headers = [],
               body = Json (JObj [(''success'', JBool True),
                                  (''message'', JStr ''SVG image uploaded successfully''),
                                  (''data'', JObj [(''filename'', JStr (originalname f)),
                                                   (''originalName'', JStr (originalname f)),
                                                   (''size'', JNum (length (stream f))),
                                                   (''url'', JStr (imageUrl req (originalname f))),
                                                   (''directUrl'', JStr (imageUrl req (originalname f)))])])\<rparr> \<and>
            db (snd (post_upload_fs req now (Some msg) (Some f) w)) = db w \<and>
            map_of (uploadsDir (snd (post_upload_fs req now (Some msg) (Some f) w))) (originalname f) =
              Some \<lparr>bytes = stream f,
                    birthtime = (case map_of (uploadsDir w) (originalname f) of
                                   None \<Rightarrow> now | Some old \<Rightarrow> birthtime old)\<rparr>)"
  using assms
  by (simp add: post_upload_def post_upload_fs_def upload_single_memory_def upload_single_disk_def
        upload_handler_def upload_handler_fs_def Let_def res_json_def map_of_write_file
        includes_str_sublist)

theorem upsert_failure_responses_witness:
  "fileFilter \<lparr>originalname = ''a.svg'', mimetype = ''image/svg+xml'', stream = ''<svg></svg>''\<rparr> = Inr True \<and>
   length (stream \<lparr>originalname = ''a.svg'', mimetype = ''image/svg+xml'', stream = ''<svg></svg>''\<rparr>)
     \<le> fileSize \<and>
   post_upload (\<lambda>b. b) \<lparr>protocol = ''http'', host = ''h''\<rparr> 1 (Some ''connection refused'')
     (Some \<lparr>originalname = ''a.svg'', mimetype = ''image/svg+xml'', stream = ''<svg></svg>''\<rparr>)
     empty_table =
     (\<lparr>status = 500, headers = [],
       body = Json (JObj [(''success'', JBool False),
                          (''message'', JStr ''Database error while saving image'')])\<rparr>, empty_table) \<and>
   status (fst (post_upload_fs \<lparr>protocol = ''http'', host = ''h''\<rparr> 1 (Some ''connection refused'')
     (Some \<lparr>originalname = ''a.svg'', mimetype = ''image/svg+xml'', stream = ''<svg></svg>''\<rparr>)
     empty_world)) = 200"
proof -
  let ?f = "\<lparr>originalname = ''a.svg'', mimetype = ''image/svg+xml'', stream = ''<svg></svg>''\<rparr>"
  have a: "fileFilter ?f = Inr True" by (simp add: fileFilter_def)
  have b: "length (stream ?f) \<le> fileSize" by (simp add: fileSize_def)
  have c: "sublist ''<svg'' ((\<lambda>b. b) (stream ?f)) \<and> sublist ''</svg>'' ((\<lambda>b. b) (stream ?f))"
    by (simp flip: includes_str_sublist)
  have d: "plain_name (originalname ?f)" by (simp add: plain_name_def)
  show ?thesis
    using a b c d upsert_failure_responses[OF a b, of "\<lambda>b. b" "\<lparr>protocol = ''http'', host = ''h''\<rparr>" 1
        "''connection refused''" empty_table empty_world]
    by simp
qed

section \<open>Re-upload\<close>

text \<open>
  Claim C2. Re-uploading a filename is to update the row's size and \<open>uploadedAt\<close> and keep its
  identity, in both variants, with one row per filename at any time (\<open>distinct_reachable\<close>,
  \<open>distinct_reachable_fs\<close>). The inline upsert does so (\<open>upsert_inline_existing\<close>). The
  filesystem upsert does not set \<open>uploaded_at\<close> (\<open>upsert_fs_existing\<close>): uploading \<open>a.svg\<close> at
  time 1 and again, with other content, at time 2 leaves the row with the new size and the
  timestamp 1.
\<close>

theorem fs_reupload_keeps_uploaded_at:
  "rows (db (run_fs
     [Call (POST_upload (Some \<lparr>originalname = ''a.svg'', mimetype = ''image/svg+xml'',
                                stream = ''<svg>1</svg>''\<rparr>)) \<lparr>protocol = ''http'', host = ''h''\<rparr> 1 None,
      Call (POST_upload (Some \<lparr>originalname = ''a.svg'', mimetype = ''image/svg+xml'',
                                stream = ''<svg>22</svg>''\<rparr>)) \<lparr>protocol = ''http'', host = ''h''\<rparr> 2 None]
     empty_world)) =
   [\<lparr>id_col = 1, filename = ''a.svg'', original_name = Some ''a.svg'', size_col = Some 13,
     uploaded_at = 1\<rparr>]"
  by (simp add: post_upload_fs_def upload_single_disk_def fileFilter_def fileSize_def
        upload_handler_fs_def upsert_fs_def empty_world_def empty_table_def write_file_def)

section \<open>Deleting\<close>









section \<open>Deleting in the filesystem variant\<close>

lemma existsSync_iff: "existsSync dir name = (name \<in> fst ` set dir)"
  by (simp add: existsSync_def map_of_eq_None_iff)






section \<open>Listing\<close>








end
